theory Spec2Isabelle
  imports Complex_Main
begin

section \<open>Python values\<close>

text \<open>
  The values of Python 2 that \<open>gcloudorm/property.py\<close> tests for and produces.
  A \<open>str\<close> is a byte string (\<open>string\<close>, a list of 8-bit characters), a \<open>unicode\<close> a
  list of code points. \<open>int\<close> and \<open>long\<close> are different types whose payload is an
  integer; \<open>float\<close> carries a real number (infinities and NaN are left out, and no
  property below depends on the number a float carries). A \<open>datetime.datetime\<close> has the fields of a
  date, the fields of a time and an optional \<open>tzinfo\<close> (an offset from UTC in minutes);
  \<open>datetime.time\<close> has the time fields and the optional \<open>tzinfo\<close>.
\<close>

datatype date_fields = DateF (year: int) (month: int) (day: int)

datatype time_fields = TimeF (hour: int) (minute: int) (second: int) (microsecond: int)

datatype pyval =
    PNone
  | PBool bool
  | PInt int
  | PLong int
  | PFloat real
  | PStr string
  | PUnicode "nat list"
  | PDateTime date_fields time_fields "int option"
  | PDate date_fields
  | PTime time_fields "int option"
  | PList "pyval list"
  | PTuple "pyval list"
  | PCompressedValue pyval

text \<open>
  \<open>PCompressedValue\<close> is modelled from the spec: the storage driver's wrapper of a
  compressed blob, an object whose attribute \<open>z_val\<close> holds the compressed payload.
  The driver is not part of the source file; every other value has no attribute \<open>z_val\<close>.
\<close>

datatype error =
    AssertionError
  | AttributeError
  | TypeError
  | ValueError
  | OverflowError
  | UnicodeDecodeError
  | PicklingError
  | UnpicklingError
  | KeyError

section \<open>The interpreter and the standard library\<close>

text \<open>
  What the source calls from outside the repository is a parameter of the model:
  \<open>zlib.compress\<close>, \<open>zlib.decompress\<close>, \<open>pickle.dumps\<close>, \<open>pickle.loads\<close>,
  \<open>json.dumps\<close>, \<open>json.loads\<close>, the UTF-8 decoder behind \<open>str.decode('utf-8')\<close> and
  \<open>unicode(s, 'utf-8')\<close>, the conversion of an integer to a float (which rounds and may
  raise \<open>OverflowError\<close>) and \<open>sys.maxint\<close>. Each may raise.
\<close>

record pylib =
  zlib_compress :: "pyval \<Rightarrow> error + pyval"
  zlib_decompress :: "pyval \<Rightarrow> error + pyval"
  pickle_dumps :: "pyval \<Rightarrow> error + pyval"
  pickle_loads :: "pyval \<Rightarrow> error + pyval"
  json_dumps :: "pyval \<Rightarrow> error + pyval"
  json_loads :: "pyval \<Rightarrow> error + pyval"
  utf8_decode :: "string \<Rightarrow> error + nat list"
  float_of_int :: "int \<Rightarrow> error + real"
  maxint :: int

text \<open>Sequencing of computations that may raise.\<close>

definition bind_result :: "error + 'a \<Rightarrow> ('a \<Rightarrow> error + 'b) \<Rightarrow> error + 'b" where
  "bind_result r f = (case r of Inl e \<Rightarrow> Inl e | Inr x \<Rightarrow> f x)"

text \<open>A list comprehension \<open>[f(k) for k in xs]\<close>: left to right, the first raise ends it.\<close>

fun map_result :: "('a \<Rightarrow> error + 'b) \<Rightarrow> 'a list \<Rightarrow> error + 'b list" where
  "map_result f [] = Inr []"
| "map_result f (x # xs) =
     (case f x of
        Inl e \<Rightarrow> Inl e
      | Inr y \<Rightarrow> (case map_result f xs of Inl e \<Rightarrow> Inl e | Inr ys \<Rightarrow> Inr (y # ys)))"

text \<open>\<open>isinstance\<close> for the classes the source names. \<open>bool\<close> is a subclass of \<open>int\<close>,
  \<open>datetime.datetime\<close> a subclass of \<open>datetime.date\<close>.\<close>

fun isinstance_bool :: "pyval \<Rightarrow> bool" where
  "isinstance_bool (PBool b) = True"
| "isinstance_bool v = False"

fun isinstance_int_long :: "pyval \<Rightarrow> bool" where
  "isinstance_int_long (PBool b) = True"
| "isinstance_int_long (PInt i) = True"
| "isinstance_int_long (PLong i) = True"
| "isinstance_int_long v = False"

fun isinstance_int_long_float :: "pyval \<Rightarrow> bool" where
  "isinstance_int_long_float (PFloat r) = True"
| "isinstance_int_long_float v = isinstance_int_long v"

fun isinstance_str :: "pyval \<Rightarrow> bool" where
  "isinstance_str (PStr s) = True"
| "isinstance_str v = False"

fun isinstance_unicode :: "pyval \<Rightarrow> bool" where
  "isinstance_unicode (PUnicode u) = True"
| "isinstance_unicode v = False"

fun isinstance_datetime :: "pyval \<Rightarrow> bool" where
  "isinstance_datetime (PDateTime d t z) = True"
| "isinstance_datetime v = False"

fun isinstance_date :: "pyval \<Rightarrow> bool" where
  "isinstance_date (PDate d) = True"
| "isinstance_date (PDateTime d t z) = True"
| "isinstance_date v = False"

fun isinstance_time :: "pyval \<Rightarrow> bool" where
  "isinstance_time (PTime t z) = True"
| "isinstance_time v = False"

fun isinstance_tuple_list :: "pyval \<Rightarrow> bool" where
  "isinstance_tuple_list (PList xs) = True"
| "isinstance_tuple_list (PTuple xs) = True"
| "isinstance_tuple_list v = False"

text \<open>\<open>int(value)\<close> on an instance of \<open>int\<close> or \<open>long\<close>: a \<open>long\<close> that fits becomes
  an \<open>int\<close>, one that does not stays a \<open>long\<close>.\<close>

fun py_int :: "pylib \<Rightarrow> pyval \<Rightarrow> error + pyval" where
  "py_int lib (PBool b) = Inr (PInt (if b then 1 else 0))"
| "py_int lib (PInt i) = Inr (PInt i)"
| "py_int lib (PLong i) =
     (if - maxint lib - 1 \<le> i \<and> i \<le> maxint lib then Inr (PInt i) else Inr (PLong i))"
| "py_int lib v = Inl TypeError"

fun py_float :: "pylib \<Rightarrow> pyval \<Rightarrow> error + pyval" where
  "py_float lib (PBool b) = map_sum id PFloat (float_of_int lib (if b then 1 else 0))"
| "py_float lib (PInt i) = map_sum id PFloat (float_of_int lib i)"
| "py_float lib (PLong i) = map_sum id PFloat (float_of_int lib i)"
| "py_float lib (PFloat r) = Inr (PFloat r)"
| "py_float lib v = Inl TypeError"

text \<open>Truth value of an object, as \<open>default or []\<close> tests it. In Python 2 a
  \<open>datetime.time\<close> is false at midnight UTC.\<close>

fun truthy :: "pyval \<Rightarrow> bool" where
  "truthy PNone = False"
| "truthy (PBool b) = b"
| "truthy (PInt i) = (i \<noteq> 0)"
| "truthy (PLong i) = (i \<noteq> 0)"
| "truthy (PFloat r) = (r \<noteq> 0)"
| "truthy (PStr s) = (s \<noteq> [])"
| "truthy (PUnicode u) = (u \<noteq> [])"
| "truthy (PDateTime d t z) = True"
| "truthy (PDate d) = True"
| "truthy (PTime t z) =
     (second t \<noteq> 0 \<or> microsecond t \<noteq> 0 \<or>
      minute t + hour t * 60 - (case z of None \<Rightarrow> 0 | Some off \<Rightarrow> off) \<noteq> 0)"
| "truthy (PList xs) = (xs \<noteq> [])"
| "truthy (PTuple xs) = (xs \<noteq> [])"
| "truthy (PCompressedValue v) = True"

text \<open>Iteration \<open>for k in value\<close>.\<close>

fun py_iter :: "pyval \<Rightarrow> error + pyval list" where
  "py_iter (PList xs) = Inr xs"
| "py_iter (PTuple xs) = Inr xs"
| "py_iter (PStr s) = Inr (map (\<lambda>c. PStr [c]) s)"
| "py_iter (PUnicode u) = Inr (map (\<lambda>c. PUnicode [c]) u)"
| "py_iter v = Inl TypeError"

text \<open>The attribute \<open>value.z_val\<close>.\<close>

fun z_val :: "pyval \<Rightarrow> error + pyval" where
  "z_val (PCompressedValue v) = Inr v"
| "z_val v = Inl AttributeError"

section \<open>Property descriptors\<close>

text \<open>
  The class of a descriptor is its \<open>kind\<close>; the attributes set by the constructors are the
  fields. \<open>compressed\<close> exists on the Blob family only, \<open>schema\<close> on \<open>JsonProperty\<close>,
  \<open>auto_now_add\<close> and \<open>auto_now\<close> on the DateTime family; elsewhere they are never read.
  \<open>choices\<close> is the container tested by \<open>value in self._choices\<close>, given as the set of
  values for which that test is true. The custom validator is called as
  \<open>self._validator(self, value)\<close>; for a fixed descriptor that is a function of the value.
\<close>

datatype kind =
    Property | BooleanProperty | IntegerProperty | FloatProperty
  | BlobProperty | TextProperty | StringProperty | PickleProperty | JsonProperty
  | DateTimeProperty | DateProperty | TimeProperty

record property =
  kind :: kind
  name :: "string option"
  indexed :: bool
  repeated :: bool
  required :: bool
  default_value :: pyval
  choices :: "pyval set option"
  validator :: "(pyval \<Rightarrow> error + pyval) option"
  compressed :: bool
  schema :: pyval
  auto_now_add :: bool
  auto_now :: bool

text \<open>Keyword arguments \<open>**kwargs\<close>: each key is present or absent.\<close>

record kwargs =
  kw_indexed :: "bool option"
  kw_repeated :: "bool option"
  kw_required :: "bool option"
  kw_default :: "pyval option"
  kw_choices :: "pyval set option option"
  kw_validator :: "(pyval \<Rightarrow> error + pyval) option option"
  kw_compressed :: "bool option"

definition no_kwargs :: kwargs where
  "no_kwargs = \<lparr>kw_indexed = None, kw_repeated = None, kw_required = None, kw_default = None,
     kw_choices = None, kw_validator = None, kw_compressed = None\<rparr>"

subsection \<open>Constructors\<close>

text \<open>
  \<open>Property.__init__(self, name, indexed=True, repeated=False, required=False,
  default=None, choices=None, validator=None)\<close>. The first argument of each constructor
  below is the class of the object under construction. A keyword that the signature
  does not have (\<open>compressed\<close>, outside the Blob family) is a \<open>TypeError\<close>.
\<close>

definition Property_init :: "kind \<Rightarrow> string option \<Rightarrow> kwargs \<Rightarrow> error + property" where
  "Property_init k nm kw =
     (if kw_compressed kw \<noteq> None then Inl TypeError
      else Inr \<lparr>kind = k, name = nm,
        indexed = (case kw_indexed kw of None \<Rightarrow> True | Some b \<Rightarrow> b),
        repeated = (case kw_repeated kw of None \<Rightarrow> False | Some b \<Rightarrow> b),
        required = (case kw_required kw of None \<Rightarrow> False | Some b \<Rightarrow> b),
        default_value = (case kw_default kw of None \<Rightarrow> PNone | Some v \<Rightarrow> v),
        choices = (case kw_choices kw of None \<Rightarrow> None | Some c \<Rightarrow> c),
        validator = (case kw_validator kw of None \<Rightarrow> None | Some f \<Rightarrow> f),
        compressed = False, schema = PNone, auto_now_add = False, auto_now = False\<rparr>)"

text \<open>
  \<open>BlobProperty.__init__(self, name=None, compressed=False, **kwargs)\<close>: pops
  \<open>indexed\<close> from the keywords, calls the base constructor with \<open>indexed=False\<close>, stores
  \<open>compressed\<close>, then asserts that the property is not both compressed and indexed.
\<close>

definition BlobProperty_init :: "kind \<Rightarrow> string option \<Rightarrow> kwargs \<Rightarrow> error + property" where
  "BlobProperty_init k nm kw =
     (let c = (case kw_compressed kw of None \<Rightarrow> False | Some b \<Rightarrow> b);
          kw1 = kw\<lparr>kw_compressed := None, kw_indexed := None\<rparr>
      in case Property_init k nm (kw1\<lparr>kw_indexed := Some False\<rparr>) of
           Inl e \<Rightarrow> Inl e
         | Inr p \<Rightarrow>
             (let p1 = p\<lparr>compressed := c\<rparr>
              in if c \<and> indexed p1 then Inl AssertionError else Inr p1))"

text \<open>\<open>TextProperty.__init__(self, name=None, indexed=False, **kwargs)\<close> and
  \<open>StringProperty.__init__(self, name=None, indexed=True, **kwargs)\<close> pass \<open>indexed\<close> on.\<close>

definition TextProperty_init :: "kind \<Rightarrow> string option \<Rightarrow> kwargs \<Rightarrow> error + property" where
  "TextProperty_init k nm kw =
     (let i = (case kw_indexed kw of None \<Rightarrow> False | Some b \<Rightarrow> b)
      in BlobProperty_init k nm (kw\<lparr>kw_indexed := Some i\<rparr>))"

definition StringProperty_init :: "kind \<Rightarrow> string option \<Rightarrow> kwargs \<Rightarrow> error + property" where
  "StringProperty_init k nm kw =
     (let i = (case kw_indexed kw of None \<Rightarrow> True | Some b \<Rightarrow> b)
      in TextProperty_init k nm (kw\<lparr>kw_indexed := Some i\<rparr>))"

definition JsonProperty_init ::
  "kind \<Rightarrow> string option \<Rightarrow> pyval \<Rightarrow> kwargs \<Rightarrow> error + property" where
  "JsonProperty_init k nm sch kw =
     (case BlobProperty_init k nm kw of
        Inl e \<Rightarrow> Inl e
      | Inr p \<Rightarrow> Inr (p\<lparr>schema := sch\<rparr>))"

definition DateTimeProperty_init ::
  "kind \<Rightarrow> string option \<Rightarrow> bool \<Rightarrow> bool \<Rightarrow> kwargs \<Rightarrow> error + property" where
  "DateTimeProperty_init k nm ana an kw =
     (if (ana \<or> an) \<and> (case kw_repeated kw of None \<Rightarrow> False | Some b \<Rightarrow> b)
      then Inl AssertionError
      else case Property_init k nm kw of
             Inl e \<Rightarrow> Inl e
           | Inr p \<Rightarrow> Inr (p\<lparr>auto_now_add := ana, auto_now := an\<rparr>))"

subsection \<open>Validation\<close>

text \<open>
  The hook \<open>_validate\<close> of each class. \<open>TextProperty._validate\<close> decodes a \<open>str\<close> and
  asserts that the result is a \<open>unicode\<close>; \<open>StringProperty\<close> inherits it; the codec
  properties accept everything.
\<close>

fun priv_validate :: "pylib \<Rightarrow> property \<Rightarrow> pyval \<Rightarrow> error + pyval" where
  "priv_validate lib p v =
     (case kind p of
        Property \<Rightarrow> Inr v
      | BooleanProperty \<Rightarrow> (if isinstance_bool v then Inr v else Inl AssertionError)
      | IntegerProperty \<Rightarrow> (if isinstance_int_long v then py_int lib v else Inl AssertionError)
      | FloatProperty \<Rightarrow>
          (if isinstance_int_long_float v then py_float lib v else Inl AssertionError)
      | BlobProperty \<Rightarrow> (if isinstance_str v then Inr v else Inl AssertionError)
      | TextProperty \<Rightarrow>
          bind_result (case v of PStr s \<Rightarrow> map_sum id PUnicode (utf8_decode lib s) | _ \<Rightarrow> Inr v)
            (\<lambda>w. if isinstance_unicode w then Inr w else Inl AssertionError)
      | StringProperty \<Rightarrow>
          bind_result (case v of PStr s \<Rightarrow> map_sum id PUnicode (utf8_decode lib s) | _ \<Rightarrow> Inr v)
            (\<lambda>w. if isinstance_unicode w then Inr w else Inl AssertionError)
      | PickleProperty \<Rightarrow> Inr v
      | JsonProperty \<Rightarrow> Inr v
      | DateTimeProperty \<Rightarrow> (if isinstance_datetime v then Inr v else Inl AssertionError)
      | DateProperty \<Rightarrow> (if isinstance_date v then Inr v else Inl AssertionError)
      | TimeProperty \<Rightarrow> (if isinstance_time v then Inr v else Inl AssertionError))"

text \<open>
  \<open>Property.validate\<close>: the two assertions, the return of \<open>None\<close> for \<open>None\<close>, the call
  of \<open>_validate\<close> whose result is dropped, then the custom validator's result or the
  value itself.
\<close>

definition validate :: "pylib \<Rightarrow> property \<Rightarrow> pyval \<Rightarrow> error + pyval" where
  "validate lib p v =
     (if (case choices p of None \<Rightarrow> True | Some cs \<Rightarrow> v \<in> cs) then
        if required p \<and> v \<noteq> PNone then Inl AssertionError
        else if v = PNone then Inr PNone
        else
          (case priv_validate lib p v of
             Inl e \<Rightarrow> Inl e
           | Inr w \<Rightarrow> (case validator p of Some f \<Rightarrow> f v | None \<Rightarrow> Inr v))
      else Inl AssertionError)"

subsection \<open>Conversion between user values and base values\<close>

text \<open>\<open>BlobProperty._to_base_type\<close> and \<open>BlobProperty._from_base_type\<close>, which the codec
  properties reach through \<open>super\<close>.\<close>

definition Blob_to_base_type :: "pylib \<Rightarrow> property \<Rightarrow> pyval \<Rightarrow> error + pyval" where
  "Blob_to_base_type lib p v = (if compressed p then zlib_compress lib v else Inr v)"

definition Blob_from_base_type :: "pylib \<Rightarrow> property \<Rightarrow> pyval \<Rightarrow> error + pyval" where
  "Blob_from_base_type lib p v =
     (if compressed p then bind_result (z_val v) (zlib_decompress lib) else Inr v)"

text \<open>
  \<open>_to_base_type\<close> of each class. \<open>DateProperty\<close> reads \<open>value.year\<close>, \<open>value.month\<close>
  and \<open>value.day\<close>, which a date and a datetime have; \<open>TimeProperty\<close> reads
  \<open>value.hour\<close>, \<open>value.minute\<close>, \<open>value.second\<close> and \<open>value.microsecond\<close>, which a
  time and a datetime have. Both build a datetime without \<open>tzinfo\<close>.
\<close>

fun priv_to_base_type :: "pylib \<Rightarrow> property \<Rightarrow> pyval \<Rightarrow> error + pyval" where
  "priv_to_base_type lib p v =
     (case kind p of
        Property \<Rightarrow> Inr v
      | BooleanProperty \<Rightarrow> Inr v
      | IntegerProperty \<Rightarrow> Inr v
      | FloatProperty \<Rightarrow> Inr v
      | BlobProperty \<Rightarrow> Blob_to_base_type lib p v
      | TextProperty \<Rightarrow>
          (case v of PStr s \<Rightarrow> map_sum id PUnicode (utf8_decode lib s) | _ \<Rightarrow> Inr v)
      | StringProperty \<Rightarrow>
          (case v of PStr s \<Rightarrow> map_sum id PUnicode (utf8_decode lib s) | _ \<Rightarrow> Inr v)
      | PickleProperty \<Rightarrow> bind_result (pickle_dumps lib v) (Blob_to_base_type lib p)
      | JsonProperty \<Rightarrow> bind_result (json_dumps lib v) (Blob_to_base_type lib p)
      | DateTimeProperty \<Rightarrow> Inr v
      | DateProperty \<Rightarrow>
          (case v of
             PDate d \<Rightarrow> Inr (PDateTime d (TimeF 0 0 0 0) None)
           | PDateTime d t z \<Rightarrow> Inr (PDateTime d (TimeF 0 0 0 0) None)
           | _ \<Rightarrow> Inl AttributeError)
      | TimeProperty \<Rightarrow>
          (case v of
             PTime t z \<Rightarrow> Inr (PDateTime (DateF 1970 1 1) t None)
           | PDateTime d t z \<Rightarrow> Inr (PDateTime (DateF 1970 1 1) t None)
           | _ \<Rightarrow> Inl AttributeError))"

text \<open>
  \<open>_from_base_type\<close> of each class. \<open>TextProperty._from_base_type\<close> has no branch for
  a value that is neither \<open>str\<close> nor \<open>unicode\<close> and so returns \<open>None\<close> for it.
  \<open>value.date()\<close> and \<open>value.time()\<close> are methods of a datetime only; \<open>time()\<close> returns
  a time without \<open>tzinfo\<close>.
\<close>

fun priv_from_base_type :: "pylib \<Rightarrow> property \<Rightarrow> pyval \<Rightarrow> error + pyval" where
  "priv_from_base_type lib p v =
     (case kind p of
        Property \<Rightarrow> Inr v
      | BooleanProperty \<Rightarrow> Inr v
      | IntegerProperty \<Rightarrow> Inr v
      | FloatProperty \<Rightarrow> Inr v
      | BlobProperty \<Rightarrow> Blob_from_base_type lib p v
      | TextProperty \<Rightarrow>
          (case v of
             PStr s \<Rightarrow> map_sum id PUnicode (utf8_decode lib s)
           | PUnicode u \<Rightarrow> Inr v
           | _ \<Rightarrow> Inr PNone)
      | StringProperty \<Rightarrow>
          (case v of
             PStr s \<Rightarrow> map_sum id PUnicode (utf8_decode lib s)
           | PUnicode u \<Rightarrow> Inr v
           | _ \<Rightarrow> Inr PNone)
      | PickleProperty \<Rightarrow> bind_result (Blob_from_base_type lib p v) (pickle_loads lib)
      | JsonProperty \<Rightarrow> bind_result (Blob_from_base_type lib p v) (json_loads lib)
      | DateTimeProperty \<Rightarrow> Inr v
      | DateProperty \<Rightarrow>
          (case v of PDateTime d t z \<Rightarrow> Inr (PDate d) | _ \<Rightarrow> Inl AttributeError)
      | TimeProperty \<Rightarrow>
          (case v of PDateTime d t z \<Rightarrow> Inr (PTime t None) | _ \<Rightarrow> Inl AttributeError))"

definition to_base_type :: "pylib \<Rightarrow> property \<Rightarrow> pyval \<Rightarrow> error + pyval" where
  "to_base_type lib p v = (if v = PNone then Inr v else priv_to_base_type lib p v)"

definition from_base_type :: "pylib \<Rightarrow> property \<Rightarrow> pyval \<Rightarrow> error + pyval" where
  "from_base_type lib p v = (if v = PNone then Inr v else priv_from_base_type lib p v)"

section \<open>Access through the entity mapping\<close>

text \<open>
  The entity is a dictionary from storage names to base values. A descriptor whose name
  was never fixed up has the name \<open>None\<close>, which is a key like any other. The operations
  return what they raise or return together with the entity as they leave it.
\<close>

type_synonym entity = "string option \<rightharpoonup> pyval"

text \<open>\<open>Property.__set__\<close>: both list comprehensions (or validation and conversion of
  the one value) are evaluated before the one assignment to \<open>instance[self._name]\<close>.\<close>

definition dunder_set ::
  "pylib \<Rightarrow> property \<Rightarrow> entity \<Rightarrow> pyval \<Rightarrow> (error + unit) \<times> entity" where
  "dunder_set lib p inst v =
     (if repeated p then
        (if isinstance_tuple_list v then
           (case bind_result (bind_result (py_iter v) (map_result (validate lib p)))
                   (map_result (to_base_type lib p)) of
              Inl e \<Rightarrow> (Inl e, inst)
            | Inr bs \<Rightarrow> (Inr (), inst(name p \<mapsto> PList bs)))
         else (Inl AssertionError, inst))
      else
        (case bind_result (validate lib p v) (to_base_type lib p) of
           Inl e \<Rightarrow> (Inl e, inst)
         | Inr b \<Rightarrow> (Inr (), inst(name p \<mapsto> b))))"

text \<open>\<open>instance[self._name]\<close>.\<close>

definition getitem :: "entity \<Rightarrow> string option \<Rightarrow> error + pyval" where
  "getitem inst k = (case inst k of None \<Rightarrow> Inl KeyError | Some b \<Rightarrow> Inr b)"

text \<open>\<open>Property.__get__\<close>: an absent key is first set to the default (to
  \<open>self._default or []\<close> when repeated), then the stored value is converted back.\<close>

definition dunder_get :: "pylib \<Rightarrow> property \<Rightarrow> entity \<Rightarrow> (error + pyval) \<times> entity" where
  "dunder_get lib p inst =
     (if repeated p then
        (case (if inst (name p) = None
               then dunder_set lib p inst
                      (if truthy (default_value p) then default_value p else PList [])
               else (Inr (), inst)) of
           (Inl e, inst1) \<Rightarrow> (Inl e, inst1)
         | (Inr u, inst1) \<Rightarrow>
             (map_sum id PList
                (bind_result (bind_result (getitem inst1 (name p)) py_iter)
                   (map_result (from_base_type lib p))), inst1))
      else
        (case (if inst (name p) = None
               then dunder_set lib p inst (default_value p)
               else (Inr (), inst)) of
           (Inl e, inst1) \<Rightarrow> (Inl e, inst1)
         | (Inr u, inst1) \<Rightarrow>
             (bind_result (getitem inst1 (name p)) (from_base_type lib p), inst1)))"


section \<open>The hook before a put\<close>

text \<open>
  \<open>datetime.datetime.utcnow()\<close> reads the clock; the clock is the sequence of its
  readings and the state counts the readings taken. \<open>DateProperty._now\<close> keeps the
  date of the reading, the other two classes return the datetime.
\<close>

type_synonym clock = "nat \<Rightarrow> date_fields \<times> time_fields"

definition priv_now :: "property \<Rightarrow> clock \<Rightarrow> nat \<Rightarrow> pyval" where
  "priv_now p clk t =
     (case kind p of
        DateProperty \<Rightarrow> PDate (fst (clk t))
      | _ \<Rightarrow> PDateTime (fst (clk t)) (snd (clk t)) None)"

text \<open>
  \<open>_prepare_for_put\<close>: nothing in the base class; in the DateTime family
  \<open>getattr(entity, self._name)\<close> and \<open>setattr(entity, self._name, ...)\<close>, which reach
  \<open>__get__\<close> and \<open>__set__\<close> of this descriptor (the record type, which is not in the
  source file, binds a descriptor under its storage name). \<open>getattr\<close> with the name
  \<open>None\<close> is a \<open>TypeError\<close>.
\<close>

definition is_datetime_family :: "kind \<Rightarrow> bool" where
  "is_datetime_family k = (k = DateTimeProperty \<or> k = DateProperty \<or> k = TimeProperty)"

definition priv_prepare_for_put ::
  "pylib \<Rightarrow> clock \<Rightarrow> property \<Rightarrow> entity \<times> nat \<Rightarrow> (error + unit) \<times> entity \<times> nat" where
  "priv_prepare_for_put lib clk p st =
     (case st of (inst, t) \<Rightarrow>
        if is_datetime_family (kind p) then
          (if name p = None then (Inl TypeError, inst, t)
           else
             (case dunder_get lib p inst of
                (Inl e, inst1) \<Rightarrow> (Inl e, inst1, t)
              | (Inr v, inst1) \<Rightarrow>
                  (case (if v = PNone \<and> auto_now_add p
                         then (dunder_set lib p inst1 (priv_now p clk t), Suc t)
                         else ((Inr (), inst1), t)) of
                     ((Inl e, inst2), t2) \<Rightarrow> (Inl e, inst2, t2)
                   | ((Inr u, inst2), t2) \<Rightarrow>
                       (if auto_now p
                        then (case dunder_set lib p inst2 (priv_now p clk t2) of
                                (r, inst3) \<Rightarrow> (r, inst3, Suc t2))
                        else (Inr (), inst2, t2)))))
        else (Inr (), inst, t))"

section \<open>A library instance for evaluation\<close>

text \<open>
  One instance of the library parameters, on which the theorems below are evaluated at
  concrete inputs: compression and pickling put one byte in front of a byte string and
  their inverses take it off, JSON knows the empty text only, the decoder accepts ASCII,
  an integer converts to the real number it denotes, and \<open>sys.maxint\<close> is that of a
  64-bit build.
\<close>

definition demo_lib :: pylib where
  "demo_lib = \<lparr>
     zlib_compress = (\<lambda>v. case v of PStr s \<Rightarrow> Inr (PStr (CHR ''z'' # s)) | _ \<Rightarrow> Inl TypeError),
     zlib_decompress = (\<lambda>v. case v of PStr (c # s) \<Rightarrow> Inr (PStr s) | _ \<Rightarrow> Inl ValueError),
     pickle_dumps = (\<lambda>v. case v of PStr s \<Rightarrow> Inr (PStr (CHR ''S'' # s)) | _ \<Rightarrow> Inl PicklingError),
     pickle_loads = (\<lambda>v. case v of PStr (c # s) \<Rightarrow> Inr (PStr s) | _ \<Rightarrow> Inl UnpicklingError),
     json_dumps = (\<lambda>v. case v of PUnicode [] \<Rightarrow> Inr (PStr [CHR 0x22, CHR 0x22]) | _ \<Rightarrow> Inl TypeError),
     json_loads = (\<lambda>v. if v = PStr [CHR 0x22, CHR 0x22] then Inr (PUnicode []) else Inl ValueError),
     utf8_decode = (\<lambda>s. if list_all (\<lambda>c. of_char c < (128::nat)) s then Inr (map of_char s)
                         else Inl UnicodeDecodeError),
     float_of_int = (\<lambda>i. Inr (of_int i)),
     maxint = 2 ^ 63 - 1\<rparr>"

text \<open>A clock whose \<open>k\<close>-th reading is 2026-11-04 12:00 and \<open>k\<close> seconds, and a custom
  validator that answers every value with the datetime 2000-01-01 00:00.\<close>

definition demo_clock :: clock where
  "demo_clock k = (DateF 2026 11 4, TimeF 12 0 (int k) 0)"

definition demo_validator :: "pyval \<Rightarrow> error + pyval" where
  "demo_validator v = Inr (PDateTime (DateF 2000 1 1) (TimeF 0 0 0 0) None)"

section \<open>Compositions the properties are stated on\<close>

text \<open>\<open>from_base_type(to_base_type(v))\<close>.\<close>

definition roundtrip :: "pylib \<Rightarrow> property \<Rightarrow> pyval \<Rightarrow> error + pyval" where
  "roundtrip lib p v = bind_result (to_base_type lib p v) (from_base_type lib p)"


text \<open>The descriptor that \<open>Property.__init__\<close> leaves for class \<open>k\<close> and name \<open>n\<close> when
  no other argument is given.\<close>

definition base_property :: "kind \<Rightarrow> string \<Rightarrow> property" where
  "base_property k n = \<lparr>kind = k, name = Some n, indexed = True, repeated = False,
     required = False, default_value = PNone, choices = None, validator = None,
     compressed = False, schema = PNone, auto_now_add = False, auto_now = False\<rparr>"

section \<open>Auxiliary facts\<close>

lemma base_property_init: "Property_init k (Some n) no_kwargs = Inr (base_property k n)"
  by (simp add: Property_init_def no_kwargs_def base_property_def)

text \<open>List comprehensions keep length and positions, raise when an element raises and
  return when every element returns.\<close>

lemma map_result_length: "map_result f xs = Inr ys \<Longrightarrow> length ys = length xs"
  by (induction xs arbitrary: ys) (auto split: sum.splits)

lemma map_result_nth:
  "map_result f xs = Inr ys \<Longrightarrow> i < length xs \<Longrightarrow> f (xs ! i) = Inr (ys ! i)"
proof (induction xs arbitrary: ys i)
  case Nil
  then show ?case by simp
next
  case (Cons x xs)
  then show ?case by (cases i) (auto split: sum.splits)
qed

lemma map_result_raises:
  "x \<in> set xs \<Longrightarrow> f x = Inl e \<Longrightarrow> \<exists>e'. map_result f xs = Inl e'"
  by (induction xs) (auto split: sum.splits)



text \<open>Two comprehensions in a row, as in \<open>__set__\<close>: an element on which the first or
  the second function raises makes the pair raise.\<close>

lemma comprehension_raises:
  assumes "x \<in> set xs" and "bind_result (f x) g = Inl e"
  shows "\<exists>e'. bind_result (map_result f xs) (map_result g) = Inl e'"
proof (cases "map_result f xs")
  case (Inl e')
  then show ?thesis by (simp add: bind_result_def)
next
  case (Inr ws)
  from assms(1) obtain i where i: "i < length xs" "xs ! i = x"
    by (auto simp: in_set_conv_nth)
  from map_result_nth [OF Inr i(1)] i(2) have fx: "f x = Inr (ws ! i)" by simp
  with assms(2) have g: "g (ws ! i) = Inl e" by (simp add: bind_result_def)
  from map_result_length [OF Inr] i(1) have m: "ws ! i \<in> set ws" by simp
  have "\<exists>e'. map_result g ws = Inl e'"
    using m g by (rule map_result_raises [where f = g and x = "ws ! i"])
  then obtain e' where "map_result g ws = Inl e'" ..
  with Inr show ?thesis by (simp add: bind_result_def)
qed

section \<open>Validation: the required check and the choices check\<close>

text \<open>
  C1. The claim: a property constructed with \<open>required=True\<close> rejects \<open>None\<close> and lets
  every other value pass the required check. The source asserts
  \<open>not (self._required and value is not None)\<close>: with \<open>required\<close> set (and no choices),
  \<open>validate(None)\<close> returns \<open>None\<close> and every value other than \<open>None\<close> raises
  \<open>AssertionError\<close>, the opposite of the claim.
\<close>

theorem validate_required_inverted:
  assumes "required p" and "choices p = None"
  shows "validate lib p PNone = Inr PNone
       \<and> (v \<noteq> PNone \<longrightarrow> validate lib p v = Inl AssertionError)"
  using assms by (simp add: validate_def)

theorem validate_required_inverted_witness:
  "\<exists>p. Property_init IntegerProperty (Some ''n'') (no_kwargs\<lparr>kw_required := Some True\<rparr>) = Inr p
     \<and> required p \<and> choices p = None
     \<and> validate demo_lib p PNone = Inr PNone
     \<and> validate demo_lib p (PInt 5) = Inl AssertionError"
proof -
  let ?p = "\<lparr>kind = IntegerProperty, name = Some ''n'', indexed = True, repeated = False,
      required = True, default_value = PNone, choices = None, validator = None,
      compressed = False, schema = PNone, auto_now_add = False, auto_now = False\<rparr>"
  have c: "Property_init IntegerProperty (Some ''n'') (no_kwargs\<lparr>kw_required := Some True\<rparr>)
             = Inr ?p"
    by (simp add: Property_init_def no_kwargs_def)
  have r: "required ?p" "choices ?p = None" by simp_all
  from validate_required_inverted [OF r, of demo_lib "PInt 5"] c show ?thesis by simp
qed

text \<open>
  C2. The claim: with choices configured, \<open>None\<close> always passes the choices check. The
  source asserts \<open>self._choices is None or value in self._choices\<close> before it looks at
  \<open>None\<close>: with choices that do not contain \<open>None\<close>, \<open>validate(None)\<close> raises
  \<open>AssertionError\<close>.
\<close>

theorem validate_choices_rejects_None:
  assumes "choices p = Some cs" and "PNone \<notin> cs"
  shows "validate lib p PNone = Inl AssertionError"
  using assms by (simp add: validate_def)

theorem validate_choices_rejects_None_witness:
  "\<exists>p. StringProperty_init StringProperty (Some ''s'')
          (no_kwargs\<lparr>kw_choices := Some (Some {PUnicode [97], PUnicode [98]})\<rparr>) = Inr p
     \<and> choices p = Some {PUnicode [97], PUnicode [98]}
     \<and> PNone \<notin> {PUnicode [97], PUnicode [98]}
     \<and> validate demo_lib p PNone = Inl AssertionError"
proof -
  let ?cs = "{PUnicode [97], PUnicode [98]}"
  let ?p = "\<lparr>kind = StringProperty, name = Some ''s'', indexed = False, repeated = False,
      required = False, default_value = PNone, choices = Some ?cs, validator = None,
      compressed = False, schema = PNone, auto_now_add = False, auto_now = False\<rparr>"
  have c: "StringProperty_init StringProperty (Some ''s'')
             (no_kwargs\<lparr>kw_choices := Some (Some ?cs)\<rparr>) = Inr ?p"
    by (simp add: StringProperty_init_def TextProperty_init_def BlobProperty_init_def
        Property_init_def no_kwargs_def Let_def)
  have h: "choices ?p = Some ?cs" "PNone \<notin> ?cs" by simp_all
  from validate_choices_rejects_None [OF h, of demo_lib] c show ?thesis by simp
qed

section \<open>Construction of the Blob family\<close>

text \<open>
  C3. The claim: \<open>BlobProperty(compressed=True, indexed=True)\<close> fails at construction.
  The constructor pops \<open>indexed\<close> and passes \<open>indexed=False\<close> to the base class, so the
  assertion that follows never fails: construction succeeds, with \<open>compressed\<close> set and
  \<open>indexed\<close> false, whatever the other arguments are.
\<close>

theorem BlobProperty_init_compressed_indexed_succeeds:
  "\<exists>p. BlobProperty_init BlobProperty nm
          (kw\<lparr>kw_compressed := Some True, kw_indexed := Some True\<rparr>) = Inr p
     \<and> compressed p \<and> \<not> indexed p"
  by (simp add: BlobProperty_init_def Property_init_def Let_def)

text \<open>
  C4. The claim: a \<open>StringProperty\<close> is indexed by default, and \<open>indexed=True\<close> is
  honoured. \<open>StringProperty.__init__\<close> passes its \<open>indexed\<close> up to
  \<open>BlobProperty.__init__\<close>, which pops it: every \<open>StringProperty\<close> is constructed with
  \<open>indexed\<close> false, whether the argument is absent, true or false.
\<close>

theorem StringProperty_init_not_indexed:
  "\<exists>p. StringProperty_init StringProperty nm kw = Inr p \<and> \<not> indexed p"
  by (simp add: StringProperty_init_def TextProperty_init_def BlobProperty_init_def
      Property_init_def Let_def)

section \<open>What a set stores for numbers\<close>

text \<open>
  C6. The claim: \<open>IntegerProperty\<close> stores the value narrowed by \<open>int\<close>,
  \<open>FloatProperty\<close> stores the value widened by \<open>float\<close>. \<open>_validate\<close> computes
  \<open>int(value)\<close> and \<open>float(value)\<close>, but \<open>validate\<close> drops what \<open>_validate\<close>
  returns: on a plain scalar property a \<open>long\<close> is stored as the \<open>long\<close> it is, and an
  \<open>int\<close> given to a \<open>FloatProperty\<close> is stored as that \<open>int\<close>.
\<close>

theorem set_stores_unconverted:
  assumes "\<not> repeated p" and "choices p = None" and "\<not> required p" and "validator p = None"
  shows "(kind p = IntegerProperty \<longrightarrow>
            dunder_set lib p inst (PLong i) = (Inr (), inst(name p \<mapsto> PLong i)))
       \<and> (kind p = FloatProperty \<longrightarrow> float_of_int lib i = Inr r \<longrightarrow>
            dunder_set lib p inst (PInt i) = (Inr (), inst(name p \<mapsto> PInt i)))"
  using assms by (simp add: dunder_set_def validate_def to_base_type_def bind_result_def)

theorem set_stores_unconverted_witness:
  "\<exists>p q. Property_init IntegerProperty (Some ''n'') no_kwargs = Inr p
     \<and> Property_init FloatProperty (Some ''x'') no_kwargs = Inr q
     \<and> py_int demo_lib (PLong 5) = Inr (PInt 5)
     \<and> dunder_set demo_lib p Map.empty (PLong 5) = (Inr (), [Some ''n'' \<mapsto> PLong 5])
     \<and> py_float demo_lib (PInt 5) = Inr (PFloat 5)
     \<and> dunder_set demo_lib q Map.empty (PInt 5) = (Inr (), [Some ''x'' \<mapsto> PInt 5])"
proof -
  let ?p = "\<lparr>kind = IntegerProperty, name = Some ''n'', indexed = True, repeated = False,
      required = False, default_value = PNone, choices = None, validator = None,
      compressed = False, schema = PNone, auto_now_add = False, auto_now = False\<rparr>"
  let ?q = "?p\<lparr>kind := FloatProperty, name := Some ''x''\<rparr>"
  have c: "Property_init IntegerProperty (Some ''n'') no_kwargs = Inr ?p"
    "Property_init FloatProperty (Some ''x'') no_kwargs = Inr ?q"
    by (simp_all add: Property_init_def no_kwargs_def)
  have f: "float_of_int demo_lib 5 = Inr 5" by (simp add: demo_lib_def)
  have n: "py_int demo_lib (PLong 5) = Inr (PInt 5)" "py_float demo_lib (PInt 5) = Inr (PFloat 5)"
    by (simp_all add: demo_lib_def)
  have a: "dunder_set demo_lib ?p Map.empty (PLong 5) = (Inr (), [Some ''n'' \<mapsto> PLong 5])"
    using set_stores_unconverted [of ?p demo_lib Map.empty 5 5] by simp
  have b: "dunder_set demo_lib ?q Map.empty (PInt 5) = (Inr (), [Some ''x'' \<mapsto> PInt 5])"
    using set_stores_unconverted [of ?q demo_lib Map.empty 5 5] f by simp
  from c n a b show ?thesis by simp
qed

section \<open>A failed set changes nothing\<close>

text \<open>
  C8. Whenever \<open>__set__\<close> raises, the entity is the one it was given. It raises, with
  the entity untouched, when validation or conversion of the scalar value raises and when
  validation or conversion of any one element of a repeated value raises: the stored
  sequence is replaced as a whole or not at all.
\<close>

theorem set_all_or_nothing:
  "(\<forall>e0 inst'. dunder_set lib p inst v = (Inl e0, inst') \<longrightarrow> inst' = inst)
   \<and> (\<not> repeated p \<longrightarrow> bind_result (validate lib p v) (to_base_type lib p) = Inl e
        \<longrightarrow> dunder_set lib p inst v = (Inl e, inst))
   \<and> (repeated p \<longrightarrow> py_iter v = Inr xs \<longrightarrow> x \<in> set xs
        \<longrightarrow> bind_result (validate lib p x) (to_base_type lib p) = Inl e
        \<longrightarrow> (\<exists>e'. dunder_set lib p inst v = (Inl e', inst)))"
proof (intro conjI allI impI)
  fix e0 inst'
  assume "dunder_set lib p inst v = (Inl e0, inst')"
  then show "inst' = inst"
    by (auto simp: dunder_set_def split: if_splits sum.splits)
next
  assume "\<not> repeated p" "bind_result (validate lib p v) (to_base_type lib p) = Inl e"
  then show "dunder_set lib p inst v = (Inl e, inst)"
    by (simp add: dunder_set_def)
next
  assume a: "repeated p" "py_iter v = Inr xs" "x \<in> set xs"
    "bind_result (validate lib p x) (to_base_type lib p) = Inl e"
  have "\<exists>e'. bind_result (map_result (validate lib p) xs) (map_result (to_base_type lib p))
          = Inl e'"
    using a(3) a(4)
    by (rule comprehension_raises [where f = "validate lib p" and g = "to_base_type lib p"])
  then obtain e' where
    "bind_result (map_result (validate lib p) xs) (map_result (to_base_type lib p)) = Inl e'" ..
  with a(1,2) show "\<exists>e'. dunder_set lib p inst v = (Inl e', inst)"
    by (simp add: dunder_set_def bind_result_def)
qed

text \<open>A repeated \<open>IntegerProperty\<close> that holds \<open>[7]\<close> is set to \<open>[1, 'x', 3]\<close>: the
  second element does not validate, and the entity still holds \<open>[7]\<close>.\<close>

theorem set_all_or_nothing_witness:
  "repeated (base_property IntegerProperty ''n''\<lparr>repeated := True\<rparr>)
   \<and> py_iter (PList [PInt 1, PStr ''x'', PInt 3]) = Inr [PInt 1, PStr ''x'', PInt 3]
   \<and> PStr ''x'' \<in> set [PInt 1, PStr ''x'', PInt 3]
   \<and> bind_result (validate demo_lib (base_property IntegerProperty ''n''\<lparr>repeated := True\<rparr>)
          (PStr ''x''))
        (to_base_type demo_lib (base_property IntegerProperty ''n''\<lparr>repeated := True\<rparr>))
      = Inl AssertionError
   \<and> (\<exists>e'. dunder_set demo_lib (base_property IntegerProperty ''n''\<lparr>repeated := True\<rparr>)
          [Some ''n'' \<mapsto> PList [PInt 7]] (PList [PInt 1, PStr ''x'', PInt 3])
        = (Inl e', [Some ''n'' \<mapsto> PList [PInt 7]]))"
proof -
  let ?p = "base_property IntegerProperty ''n''\<lparr>repeated := True\<rparr>"
  let ?xs = "[PInt 1, PStr ''x'', PInt 3]"
  have r: "repeated ?p" by (simp add: base_property_def)
  have i: "py_iter (PList ?xs) = Inr ?xs" by simp
  have m: "PStr ''x'' \<in> set ?xs" by simp
  have f: "bind_result (validate demo_lib ?p (PStr ''x'')) (to_base_type demo_lib ?p)
             = Inl AssertionError"
    by (simp add: validate_def bind_result_def base_property_def)
  from set_all_or_nothing
         [of demo_lib ?p "[Some ''n'' \<mapsto> PList [PInt 7]]" "PList ?xs" AssertionError ?xs "PStr ''x''"]
       r i m f
  have "\<exists>e'. dunder_set demo_lib ?p [Some ''n'' \<mapsto> PList [PInt 7]] (PList ?xs)
          = (Inl e', [Some ''n'' \<mapsto> PList [PInt 7]])"
    by blast
  with r i m f show ?thesis by blast
qed

section \<open>A repeated property: set, then get\<close>










section \<open>Timestamps before a put\<close>

text \<open>On a \<open>DateTimeProperty\<close> without choices, custom validator and \<open>required\<close>, a set
  of a datetime stores it, and a get of a present value returns it.\<close>

lemma set_datetime_plain:
  assumes "kind p = DateTimeProperty" "\<not> repeated p" "choices p = None" "validator p = None"
    "\<not> required p"
  shows "dunder_set lib p m (PDateTime d tm z) = (Inr (), m(name p \<mapsto> PDateTime d tm z))"
  using assms by (simp add: dunder_set_def validate_def to_base_type_def bind_result_def)

lemma get_present_datetime:
  assumes "kind p = DateTimeProperty" "\<not> repeated p" "inst (name p) = Some b"
  shows "dunder_get lib p inst = (Inr b, inst)"
  using assms by (simp add: dunder_get_def getitem_def bind_result_def from_base_type_def)

text \<open>
  C7. The claim: with \<open>auto_now_add\<close> the hook assigns the current UTC timestamp exactly
  when the current value is \<open>None\<close>, and with \<open>auto_now\<close> every call overwrites the value
  with the current UTC timestamp. The hook assigns through \<open>setattr\<close>, that is through
  \<open>__set__\<close> and \<open>validate\<close>. With choices that do not contain the clock's reading an
  \<open>auto_now\<close> property raises \<open>AssertionError\<close> and keeps the old value; with a custom
  validator an \<open>auto_now_add\<close> property stores what the validator returns, here a fixed
  datetime that is not the clock's reading.
\<close>

theorem prepare_for_put_choices_or_validator:
  "DateTimeProperty_init DateTimeProperty (Some ''t'') False True
       (no_kwargs\<lparr>kw_choices := Some (Some {PDateTime (DateF 2000 1 1) (TimeF 0 0 0 0) None})\<rparr>)
     = Inr (base_property DateTimeProperty ''t''
              \<lparr>choices := Some {PDateTime (DateF 2000 1 1) (TimeF 0 0 0 0) None}, auto_now := True\<rparr>)
   \<and> priv_prepare_for_put demo_lib demo_clock
        (base_property DateTimeProperty ''t''
              \<lparr>choices := Some {PDateTime (DateF 2000 1 1) (TimeF 0 0 0 0) None}, auto_now := True\<rparr>)
        ([Some ''t'' \<mapsto> PDateTime (DateF 2000 1 1) (TimeF 0 0 0 0) None], 0)
       = (Inl AssertionError, [Some ''t'' \<mapsto> PDateTime (DateF 2000 1 1) (TimeF 0 0 0 0) None], Suc 0)
   \<and> priv_prepare_for_put demo_lib demo_clock
        (base_property DateTimeProperty ''t''
              \<lparr>validator := Some demo_validator,
               auto_now_add := True\<rparr>)
        ([Some ''t'' \<mapsto> PNone], 0)
       = (Inr (), [Some ''t'' \<mapsto> PDateTime (DateF 2000 1 1) (TimeF 0 0 0 0) None], Suc 0)"
  by (simp add: DateTimeProperty_init_def Property_init_def no_kwargs_def base_property_def
      priv_prepare_for_put_def is_datetime_family_def priv_now_def demo_clock_def
      demo_validator_def
      dunder_set_def dunder_get_def getitem_def validate_def to_base_type_def from_base_type_def
      bind_result_def)

text \<open>
  C7 as amended, for a \<open>DateTimeProperty\<close> that has a name, no choices, no custom
  validator and is not required (a property with one of the two flags is never repeated:
  the constructor asserts it). Let \<open>v\<close> be the current value, as \<open>__get__\<close> returns it,
  and \<open>inst1\<close> the entity after that get (the entity itself when the key is present).
  With \<open>auto_now_add\<close> and not \<open>auto_now\<close> the hook stores the clock's reading when
  \<open>v\<close> is \<open>None\<close> and changes nothing otherwise. With \<open>auto_now\<close> it always stores
  the clock's reading: the second one when \<open>auto_now_add\<close> has taken the first.
\<close>

theorem prepare_for_put_DateTime:
  assumes "kind p = DateTimeProperty" and "name p \<noteq> None" and "\<not> repeated p"
    and "choices p = None" and "validator p = None" and "\<not> required p"
    and "dunder_get lib p inst = (Inr v, inst1)"
  shows "(auto_now_add p \<and> \<not> auto_now p \<longrightarrow>
            priv_prepare_for_put lib clk p (inst, t) =
              (if v = PNone
               then (Inr (), inst1(name p \<mapsto> PDateTime (fst (clk t)) (snd (clk t)) None), Suc t)
               else (Inr (), inst1, t)))
       \<and> (auto_now p \<longrightarrow>
            priv_prepare_for_put lib clk p (inst, t) =
              (if v = PNone \<and> auto_now_add p
               then (Inr (), inst1(name p \<mapsto> PDateTime (fst (clk (Suc t))) (snd (clk (Suc t))) None),
                     Suc (Suc t))
               else (Inr (), inst1(name p \<mapsto> PDateTime (fst (clk t)) (snd (clk t)) None), Suc t)))
       \<and> (\<forall>b. inst (name p) = Some b \<longrightarrow> inst1 = inst \<and> v = b)"
proof -
  have s: "dunder_set lib p m (PDateTime d tm None) = (Inr (), m(name p \<mapsto> PDateTime d tm None))"
    for m d tm
    using assms(1,3,4,5,6) by (rule set_datetime_plain)
  have n: "priv_now p clk k = PDateTime (fst (clk k)) (snd (clk k)) None" for k
    using assms(1) by (simp add: priv_now_def)
  have f: "is_datetime_family (kind p)" using assms(1) by (simp add: is_datetime_family_def)
  from assms(2) obtain nm where nm: "name p = Some nm" by auto
  have a: "auto_now_add p \<and> \<not> auto_now p \<longrightarrow>
            priv_prepare_for_put lib clk p (inst, t) =
              (if v = PNone
               then (Inr (), inst1(name p \<mapsto> PDateTime (fst (clk t)) (snd (clk t)) None), Suc t)
               else (Inr (), inst1, t))"
    using nm assms(7) f by (simp add: priv_prepare_for_put_def s n)
  have b: "auto_now p \<longrightarrow>
            priv_prepare_for_put lib clk p (inst, t) =
              (if v = PNone \<and> auto_now_add p
               then (Inr (), inst1(name p \<mapsto> PDateTime (fst (clk (Suc t))) (snd (clk (Suc t))) None),
                     Suc (Suc t))
               else (Inr (), inst1(name p \<mapsto> PDateTime (fst (clk t)) (snd (clk t)) None), Suc t))"
    using nm assms(7) f by (simp add: priv_prepare_for_put_def s n)
  have c: "\<forall>b. inst (name p) = Some b \<longrightarrow> inst1 = inst \<and> v = b"
  proof (intro allI impI)
    fix b assume "inst (name p) = Some b"
    with assms(1,3) have "dunder_get lib p inst = (Inr b, inst)"
      by (rule get_present_datetime)
    with assms(7) show "inst1 = inst \<and> v = b" by simp
  qed
  from a b c show ?thesis by blast
qed

text \<open>\<open>DateTimeProperty(name='t', auto_now_add=True)\<close> on an empty entity, then again on
  the result; \<open>DateTimeProperty(name='t', auto_now=True)\<close> on an entity with a value.\<close>

theorem prepare_for_put_DateTime_witness:
  "DateTimeProperty_init DateTimeProperty (Some ''t'') True False no_kwargs
     = Inr (base_property DateTimeProperty ''t''\<lparr>auto_now_add := True\<rparr>)
   \<and> dunder_get demo_lib (base_property DateTimeProperty ''t''\<lparr>auto_now_add := True\<rparr>) Map.empty
       = (Inr PNone, [Some ''t'' \<mapsto> PNone])
   \<and> priv_prepare_for_put demo_lib demo_clock
        (base_property DateTimeProperty ''t''\<lparr>auto_now_add := True\<rparr>) (Map.empty, 0)
       = (Inr (), [Some ''t'' \<mapsto> PDateTime (DateF 2026 11 4) (TimeF 12 0 0 0) None], Suc 0)
   \<and> priv_prepare_for_put demo_lib demo_clock
        (base_property DateTimeProperty ''t''\<lparr>auto_now_add := True\<rparr>)
        ([Some ''t'' \<mapsto> PDateTime (DateF 2026 11 4) (TimeF 12 0 0 0) None], Suc 0)
       = (Inr (), [Some ''t'' \<mapsto> PDateTime (DateF 2026 11 4) (TimeF 12 0 0 0) None], Suc 0)
   \<and> priv_prepare_for_put demo_lib demo_clock
        (base_property DateTimeProperty ''t''\<lparr>auto_now := True\<rparr>)
        ([Some ''t'' \<mapsto> PDateTime (DateF 2026 11 4) (TimeF 12 0 0 0) None], Suc 0)
       = (Inr (), [Some ''t'' \<mapsto> PDateTime (DateF 2026 11 4) (TimeF 12 0 1 0) None], Suc (Suc 0))"
proof -
  let ?p = "base_property DateTimeProperty ''t''\<lparr>auto_now_add := True\<rparr>"
  let ?q = "base_property DateTimeProperty ''t''\<lparr>auto_now := True\<rparr>"
  let ?clk = "demo_clock"
  let ?m = "[Some ''t'' \<mapsto> PDateTime (DateF 2026 11 4) (TimeF 12 0 0 0) None]"
  have c: "DateTimeProperty_init DateTimeProperty (Some ''t'') True False no_kwargs = Inr ?p"
    by (simp add: DateTimeProperty_init_def Property_init_def no_kwargs_def base_property_def)
  have hp: "kind ?p = DateTimeProperty" "name ?p \<noteq> None" "\<not> repeated ?p" "choices ?p = None"
    "validator ?p = None" "\<not> required ?p" "auto_now_add ?p \<and> \<not> auto_now ?p"
    by (simp_all add: base_property_def)
  have hq: "kind ?q = DateTimeProperty" "name ?q \<noteq> None" "\<not> repeated ?q" "choices ?q = None"
    "validator ?q = None" "\<not> required ?q" "auto_now ?q" "\<not> auto_now_add ?q"
    by (simp_all add: base_property_def)
  have g0: "dunder_get demo_lib ?p Map.empty = (Inr PNone, [Some ''t'' \<mapsto> PNone])"
    by (simp add: dunder_get_def dunder_set_def getitem_def validate_def to_base_type_def
        from_base_type_def bind_result_def base_property_def)
  have g1: "dunder_get demo_lib ?p ?m
              = (Inr (PDateTime (DateF 2026 11 4) (TimeF 12 0 0 0) None), ?m)"
    by (simp add: dunder_get_def getitem_def from_base_type_def bind_result_def base_property_def)
  have g2: "dunder_get demo_lib ?q ?m
              = (Inr (PDateTime (DateF 2026 11 4) (TimeF 12 0 0 0) None), ?m)"
    by (simp add: dunder_get_def getitem_def from_base_type_def bind_result_def base_property_def)
  have n: "name ?p = Some ''t''" "name ?q = Some ''t''" by (simp_all add: base_property_def)
  have a: "priv_prepare_for_put demo_lib ?clk ?p (Map.empty, 0)
             = (Inr (), ?m, Suc 0)"
    using prepare_for_put_DateTime [OF hp(1-6) g0, of ?clk 0] hp(7) n by (simp add: demo_clock_def)
  have b: "priv_prepare_for_put demo_lib ?clk ?p (?m, Suc 0) = (Inr (), ?m, Suc 0)"
    using prepare_for_put_DateTime [OF hp(1-6) g1, of ?clk "Suc 0"] hp(7)
    by (simp add: demo_clock_def)
  have d: "priv_prepare_for_put demo_lib ?clk ?q (?m, Suc 0)
             = (Inr (), [Some ''t'' \<mapsto> PDateTime (DateF 2026 11 4) (TimeF 12 0 1 0) None],
                Suc (Suc 0))"
    using prepare_for_put_DateTime [OF hq(1-6) g2, of ?clk "Suc 0"] hq(7,8) n by (simp add: demo_clock_def)
  from c g0 a b d show ?thesis by simp
qed

section \<open>Get after delete\<close>










section \<open>The round trip through the base type\<close>

text \<open>\<open>from_base_type(to_base_type(v))\<close>, class by class.\<close>

lemma roundtrip_None: "roundtrip lib p PNone = Inr PNone"
  by (simp add: roundtrip_def to_base_type_def from_base_type_def bind_result_def)

lemma roundtrip_identity_kinds:
  assumes "kind p \<in> {Property, BooleanProperty, IntegerProperty, FloatProperty, DateTimeProperty}"
  shows "roundtrip lib p v = Inr v"
  using assms
  by (auto simp: roundtrip_def to_base_type_def from_base_type_def bind_result_def)

lemma roundtrip_blob:
  assumes "kind p = BlobProperty" and "\<not> compressed p"
  shows "roundtrip lib p v = Inr v"
  using assms
  by (simp add: roundtrip_def to_base_type_def from_base_type_def bind_result_def
      Blob_to_base_type_def Blob_from_base_type_def)

lemma roundtrip_text:
  assumes "kind p = TextProperty \<or> kind p = StringProperty"
  shows "roundtrip lib p (PUnicode u) = Inr (PUnicode u)"
    and "utf8_decode lib s = Inr u \<Longrightarrow> roundtrip lib p (PStr s) = Inr (PUnicode u)"
  using assms
  by (auto simp: roundtrip_def to_base_type_def from_base_type_def bind_result_def)

lemma roundtrip_pickle:
  assumes "kind p = PickleProperty" and "\<not> compressed p"
    and "pickle_dumps lib v = Inr (PStr s)" and "pickle_loads lib (PStr s) = Inr v"
  shows "roundtrip lib p v = Inr v"
  using assms
  by (simp add: roundtrip_def to_base_type_def from_base_type_def bind_result_def
      Blob_to_base_type_def Blob_from_base_type_def)

lemma roundtrip_json:
  assumes "kind p = JsonProperty" and "\<not> compressed p"
    and "json_dumps lib v = Inr (PStr s)" and "json_loads lib (PStr s) = Inr v"
  shows "roundtrip lib p v = Inr v"
  using assms
  by (simp add: roundtrip_def to_base_type_def from_base_type_def bind_result_def
      Blob_to_base_type_def Blob_from_base_type_def)

lemma roundtrip_date:
  assumes "kind p = DateProperty"
  shows "roundtrip lib p (PDate d) = Inr (PDate d)"
  using assms
  by (simp add: roundtrip_def to_base_type_def from_base_type_def bind_result_def)

lemma roundtrip_time:
  assumes "kind p = TimeProperty"
  shows "roundtrip lib p (PTime t None) = Inr (PTime t None)"
  using assms
  by (simp add: roundtrip_def to_base_type_def from_base_type_def bind_result_def)

text \<open>
  C5. The claim: with compression off, every valid value of a variant comes back equal
  from \<open>from_base_type(to_base_type(v))\<close>. \<open>DateProperty._validate\<close> accepts every
  instance of \<open>datetime.date\<close>, so also a datetime, which comes back as its date, a
  different value (Python's \<open>==\<close> between a datetime and a date is false as well).
  \<open>TimeProperty._validate\<close> accepts every \<open>datetime.time\<close>, so also one with
  \<open>tzinfo\<close>, which comes back without \<open>tzinfo\<close>.
\<close>

theorem roundtrip_date_time_counterexample:
  "priv_validate demo_lib (base_property DateProperty ''d'')
       (PDateTime (DateF 2020 1 2) (TimeF 3 4 5 6) None)
     = Inr (PDateTime (DateF 2020 1 2) (TimeF 3 4 5 6) None)
   \<and> roundtrip demo_lib (base_property DateProperty ''d'')
       (PDateTime (DateF 2020 1 2) (TimeF 3 4 5 6) None)
     = Inr (PDate (DateF 2020 1 2))
   \<and> PDate (DateF 2020 1 2) \<noteq> PDateTime (DateF 2020 1 2) (TimeF 3 4 5 6) None
   \<and> priv_validate demo_lib (base_property TimeProperty ''t'') (PTime (TimeF 3 4 5 6) (Some 60))
     = Inr (PTime (TimeF 3 4 5 6) (Some 60))
   \<and> roundtrip demo_lib (base_property TimeProperty ''t'') (PTime (TimeF 3 4 5 6) (Some 60))
     = Inr (PTime (TimeF 3 4 5 6) None)
   \<and> PTime (TimeF 3 4 5 6) None \<noteq> PTime (TimeF 3 4 5 6) (Some 60)"
  by (simp add: roundtrip_def to_base_type_def from_base_type_def bind_result_def
      base_property_def)

text \<open>
  C5 as amended. \<open>None\<close> comes back as \<open>None\<close> in every class. The base class,
  \<open>BooleanProperty\<close>, \<open>IntegerProperty\<close>, \<open>FloatProperty\<close>, \<open>DateTimeProperty\<close> and
  an uncompressed \<open>BlobProperty\<close> return every value unchanged. \<open>TextProperty\<close> and
  \<open>StringProperty\<close> return a \<open>unicode\<close> unchanged, and a \<open>str\<close> as its UTF-8
  decoding. An uncompressed \<open>PickleProperty\<close> or \<open>JsonProperty\<close> returns \<open>v\<close>
  whenever the codec's \<open>loads\<close> inverts its \<open>dumps\<close> on \<open>v\<close>. \<open>DateProperty\<close>
  returns a date that is not a datetime unchanged, \<open>TimeProperty\<close> a time without
  \<open>tzinfo\<close>.
\<close>

theorem roundtrip_own_values:
  "roundtrip lib p PNone = Inr PNone
   \<and> (kind p \<in> {Property, BooleanProperty, IntegerProperty, FloatProperty, DateTimeProperty}
        \<longrightarrow> roundtrip lib p v = Inr v)
   \<and> (kind p = BlobProperty \<and> \<not> compressed p \<longrightarrow> roundtrip lib p v = Inr v)
   \<and> (kind p = TextProperty \<or> kind p = StringProperty \<longrightarrow>
        roundtrip lib p (PUnicode u) = Inr (PUnicode u)
        \<and> (utf8_decode lib s = Inr u \<longrightarrow> roundtrip lib p (PStr s) = Inr (PUnicode u)))
   \<and> (kind p = PickleProperty \<and> \<not> compressed p
        \<and> pickle_dumps lib v = Inr (PStr s) \<and> pickle_loads lib (PStr s) = Inr v
        \<longrightarrow> roundtrip lib p v = Inr v)
   \<and> (kind p = JsonProperty \<and> \<not> compressed p
        \<and> json_dumps lib v = Inr (PStr s) \<and> json_loads lib (PStr s) = Inr v
        \<longrightarrow> roundtrip lib p v = Inr v)
   \<and> (kind p = DateProperty \<longrightarrow> roundtrip lib p (PDate d) = Inr (PDate d))
   \<and> (kind p = TimeProperty \<longrightarrow> roundtrip lib p (PTime t None) = Inr (PTime t None))"
proof (intro conjI impI)
  show "roundtrip lib p PNone = Inr PNone" by (rule roundtrip_None)
next
  assume "kind p \<in> {Property, BooleanProperty, IntegerProperty, FloatProperty, DateTimeProperty}"
  then show "roundtrip lib p v = Inr v" by (rule roundtrip_identity_kinds)
next
  assume "kind p = BlobProperty \<and> \<not> compressed p"
  then show "roundtrip lib p v = Inr v" by (simp add: roundtrip_blob)
next
  assume "kind p = TextProperty \<or> kind p = StringProperty"
  then show "roundtrip lib p (PUnicode u) = Inr (PUnicode u)" by (rule roundtrip_text(1))
next
  assume "kind p = TextProperty \<or> kind p = StringProperty" and "utf8_decode lib s = Inr u"
  then show "roundtrip lib p (PStr s) = Inr (PUnicode u)" by (rule roundtrip_text(2))
next
  assume "kind p = PickleProperty \<and> \<not> compressed p
        \<and> pickle_dumps lib v = Inr (PStr s) \<and> pickle_loads lib (PStr s) = Inr v"
  then show "roundtrip lib p v = Inr v" using roundtrip_pickle [of p lib v s] by simp
next
  assume "kind p = JsonProperty \<and> \<not> compressed p
        \<and> json_dumps lib v = Inr (PStr s) \<and> json_loads lib (PStr s) = Inr v"
  then show "roundtrip lib p v = Inr v" using roundtrip_json [of p lib v s] by simp
next
  assume "kind p = DateProperty"
  then show "roundtrip lib p (PDate d) = Inr (PDate d)" by (rule roundtrip_date)
next
  assume "kind p = TimeProperty"
  then show "roundtrip lib p (PTime t None) = Inr (PTime t None)" by (rule roundtrip_time)
qed

theorem roundtrip_own_values_witness:
  "roundtrip demo_lib (base_property FloatProperty ''x'') (PInt 5) = Inr (PInt 5)
   \<and> roundtrip demo_lib (base_property BlobProperty ''b''\<lparr>indexed := False\<rparr>) (PStr ''ab'') = Inr (PStr ''ab'')
   \<and> roundtrip demo_lib (base_property StringProperty ''s''\<lparr>indexed := False\<rparr>) (PUnicode [97, 98])
       = Inr (PUnicode [97, 98])
   \<and> roundtrip demo_lib (base_property StringProperty ''s''\<lparr>indexed := False\<rparr>) (PStr ''ab'') = Inr (PUnicode [97, 98])
   \<and> roundtrip demo_lib (base_property PickleProperty ''p''\<lparr>indexed := False\<rparr>) (PStr ''ab'') = Inr (PStr ''ab'')
   \<and> roundtrip demo_lib (base_property JsonProperty ''j''\<lparr>indexed := False\<rparr>) (PUnicode []) = Inr (PUnicode [])
   \<and> roundtrip demo_lib (base_property DateProperty ''d'') (PDate (DateF 2020 1 2))
       = Inr (PDate (DateF 2020 1 2))
   \<and> roundtrip demo_lib (base_property TimeProperty ''t'') (PTime (TimeF 3 4 5 6) None)
       = Inr (PTime (TimeF 3 4 5 6) None)"
proof -
  have k: "kind (base_property c n) = c" "\<not> compressed (base_property c n)"
    "kind (base_property c n\<lparr>indexed := False\<rparr>) = c"
    "\<not> compressed (base_property c n\<lparr>indexed := False\<rparr>)" for c n
    by (simp_all add: base_property_def)
  have u: "utf8_decode demo_lib ''ab'' = Inr [97, 98]" by (simp add: demo_lib_def)
  have pk: "pickle_dumps demo_lib (PStr ''ab'') = Inr (PStr ''Sab'')"
    "pickle_loads demo_lib (PStr ''Sab'') = Inr (PStr ''ab'')"
    by (simp_all add: demo_lib_def)
  have js: "json_dumps demo_lib (PUnicode []) = Inr (PStr [CHR 0x22, CHR 0x22])"
    "json_loads demo_lib (PStr [CHR 0x22, CHR 0x22]) = Inr (PUnicode [])"
    by (simp_all add: demo_lib_def)
  have a: "roundtrip demo_lib (base_property FloatProperty ''x'') (PInt 5) = Inr (PInt 5)"
    using roundtrip_own_values [of demo_lib "base_property FloatProperty ''x''" "PInt 5"] k
    by simp
  have b: "roundtrip demo_lib (base_property BlobProperty ''b''\<lparr>indexed := False\<rparr>) (PStr ''ab'') = Inr (PStr ''ab'')"
    using roundtrip_own_values [of demo_lib "base_property BlobProperty ''b''\<lparr>indexed := False\<rparr>" "PStr ''ab''"] k
    by simp
  have c: "roundtrip demo_lib (base_property StringProperty ''s''\<lparr>indexed := False\<rparr>) (PUnicode [97, 98])
             = Inr (PUnicode [97, 98])"
    "roundtrip demo_lib (base_property StringProperty ''s''\<lparr>indexed := False\<rparr>) (PStr ''ab'') = Inr (PUnicode [97, 98])"
    using roundtrip_own_values
            [of demo_lib "base_property StringProperty ''s''\<lparr>indexed := False\<rparr>" _ "[97, 98]" "''ab''"] k u
    by simp_all
  have d: "roundtrip demo_lib (base_property PickleProperty ''p''\<lparr>indexed := False\<rparr>) (PStr ''ab'') = Inr (PStr ''ab'')"
    using roundtrip_own_values
            [of demo_lib "base_property PickleProperty ''p''\<lparr>indexed := False\<rparr>" "PStr ''ab''" _ "''Sab''"] k pk
    by simp
  have e: "roundtrip demo_lib (base_property JsonProperty ''j''\<lparr>indexed := False\<rparr>) (PUnicode []) = Inr (PUnicode [])"
    using roundtrip_own_values
            [of demo_lib "base_property JsonProperty ''j''\<lparr>indexed := False\<rparr>" "PUnicode []" _ "[CHR 0x22, CHR 0x22]"]
          k js
    by simp
  have f: "roundtrip demo_lib (base_property DateProperty ''d'') (PDate (DateF 2020 1 2))
             = Inr (PDate (DateF 2020 1 2))"
    using roundtrip_own_values [of demo_lib "base_property DateProperty ''d''"] k by simp
  have g: "roundtrip demo_lib (base_property TimeProperty ''t'') (PTime (TimeF 3 4 5 6) None)
             = Inr (PTime (TimeF 3 4 5 6) None)"
    using roundtrip_own_values [of demo_lib "base_property TimeProperty ''t''"] k by simp
  from a b c d e f g show ?thesis by (intro conjI)
qed

end
